theory Spec2Isabelle
  imports Main "HOL-Library.Word"
begin

section \<open>Self-registration and version upgrade of the service center (datasource/etcd/engine.go)\<close>

text \<open>
  The manager \<open>SCManager\<close> registers the service center's own service and instance in the
  registry it serves, keeps the instance alive by heartbeats, and upgrades the persisted
  server version under the global lock. The struct \<open>SCManager\<close> has no fields; what its
  methods read and write are the package-level variables \<open>core.Service\<close>, \<open>core.Instance\<close>
  and \<open>config.Server\<close>. They are the fields of the state record below, and every method
  is a function from a state to an outcome and the state it leaves.
\<close>

subsection \<open>Data\<close>

type_synonym int32 = "32 word"

text \<open>\<open>pb.Response\<close>: a status code and a message. It is reached through a pointer.\<close>

record Response =
  resp_Code :: int32
  resp_Message :: string

text \<open>The generated getters accept a nil receiver and then return the zero value.\<close>

definition GetCode :: "Response option \<Rightarrow> int32" where
  "GetCode m = (case m of None \<Rightarrow> 0 | Some r \<Rightarrow> resp_Code r)"

definition GetMessage :: "Response option \<Rightarrow> string" where
  "GetMessage m = (case m of None \<Rightarrow> [] | Some r \<Rightarrow> resp_Message r)"

text \<open>
  \<open>pb.ResponseSuccess\<close>, the success sentinel of the discovery library, whose value is
  the zero of \<open>int32\<close>. The theorems about the manager compare with the sentinel and
  do not depend on its value; the evaluations at concrete inputs do.
\<close>

definition ResponseSuccess :: int32 where
  "ResponseSuccess = 0"

text \<open>\<open>pb.MicroService\<close>, restricted to the fields this file reads or writes.\<close>

record MicroService =
  svc_Environment :: string
  svc_AppId :: string
  svc_ServiceName :: string
  svc_Version :: string
  svc_ServiceId :: string

text \<open>
  \<open>pb.MicroServiceInstance\<close>, with the interval of its health check. The variable
  \<open>core.Instance\<close> and its \<open>HealthCheck\<close> are set up by package \<open>core\<close> and never
  reassigned here, so they are modelled as always present.
\<close>

record MicroServiceInstance =
  inst_InstanceId :: string
  inst_ServiceId :: string
  inst_Endpoints :: "string list"
  inst_HealthCheck_Interval :: int32

text \<open>\<open>config.Server\<close>: only its version is touched.\<close>

record ServerConfig =
  cfg_Version :: string

text \<open>
  Go errors. \<open>datasource.ErrServiceNotExists\<close> is a package-level error value,
  \<open>errors.New\<close> carries its message, \<open>fmt.Errorf\<close> carries its format string and
  arguments (the formatting itself is not modelled), and \<open>External\<close> is an error
  produced by a collaborator.
\<close>

datatype go_error =
    ErrServiceNotExists
  | ErrorsNew string
  | FmtErrorf string "string list"
  | External string

text \<open>The responses of the collaborators; each is returned through a pointer.\<close>

record GetExistenceResponse =
  exist_Response :: "Response option"
  exist_ServiceId :: string

record GetServiceResponse =
  get_Response :: "Response option"
  get_Service :: "MicroService option"

record CreateServiceResponse =
  create_Response :: "Response option"
  create_ServiceId :: string

record RegisterInstanceResponse =
  reginst_Response :: "Response option"
  reginst_InstanceId :: string

record HeartbeatResponse =
  hb_Response :: "Response option"

record UnregisterInstanceResponse =
  unreg_Response :: "Response option"

text \<open>
  How a call ends: it returns, it panics (a nil pointer is dereferenced), or the process
  exits (\<open>os.Exit\<close>).
\<close>

datatype 'a outcome = Return 'a | Panic | Exit int

text \<open>
  What a call does to the outside is recorded in a trace, in the order of the source:
  the requests sent to the registry, the lock operations, the write of the version
  record, the log lines (level and static text) and the start of the heartbeat job.
\<close>

datatype log_level = Debug | Info | Warn | Error

datatype event =
    EvExist
  | EvGetOne string
  | EvCreate
  | EvRegisterInstance string string
  | EvHeartbeat string string
  | EvUnregisterInstance string string
  | EvLock
  | EvUnlock nat
  | EvNeedUpgrade
  | EvPutBytes string
  | EvLog log_level string
  | EvGo

text \<open>
  The registry client. Every call returns a pointer to a response (\<open>None\<close> is nil) and
  an error (\<open>None\<close> is nil), and may change the registry \<open>'w\<close>. The requests are built
  by package \<open>core\<close> from \<open>core.Service\<close> and \<open>core.Instance\<close>; the collaborator is
  given the value the request is built from, and has no access to the variables
  themselves.
\<close>

record 'w registry_client =
  ServiceAPI_Exist :: "'w \<Rightarrow> MicroService option \<Rightarrow> (GetExistenceResponse option \<times> go_error option) \<times> 'w"
  ServiceAPI_GetOne :: "'w \<Rightarrow> string \<Rightarrow> (GetServiceResponse option \<times> go_error option) \<times> 'w"
  ServiceAPI_Create :: "'w \<Rightarrow> MicroService option \<Rightarrow> (CreateServiceResponse option \<times> go_error option) \<times> 'w"
  discosvc_RegisterInstance :: "'w \<Rightarrow> MicroServiceInstance \<Rightarrow> (RegisterInstanceResponse option \<times> go_error option) \<times> 'w"
  discosvc_Heartbeat :: "'w \<Rightarrow> MicroServiceInstance \<Rightarrow> (HeartbeatResponse option \<times> go_error option) \<times> 'w"
  discosvc_UnregisterInstance :: "'w \<Rightarrow> MicroServiceInstance \<Rightarrow> (UnregisterInstanceResponse option \<times> go_error option) \<times> 'w"

text \<open>
  What \<open>UpgradeVersion\<close> consumes: the global lock (\<open>mux.Lock\<close> returns a handle, a
  number here, and an error), the check \<open>needUpgrade\<close> of this package (its body is in
  another file; it reads the persisted version and \<open>config.Server\<close> and returns a
  boolean), \<open>json.Marshal\<close>, \<open>etcdadpt.PutBytes\<close> under the server-info key, and the
  version of the running binary.
\<close>

record 'w upgrade_env =
  mux_Lock :: "'w \<Rightarrow> (nat option \<times> go_error option) \<times> 'w"
  lock_Unlock :: "'w \<Rightarrow> nat \<Rightarrow> go_error option \<times> 'w"
  needUpgrade :: "'w \<Rightarrow> ServerConfig \<Rightarrow> bool"
  json_Marshal :: "ServerConfig \<Rightarrow> string \<times> go_error option"
  etcdadpt_PutBytes :: "'w \<Rightarrow> string \<Rightarrow> go_error option \<times> 'w"
  version_Ver :: string

record 'w state =
  core_Service :: "MicroService option"
  core_Instance :: MicroServiceInstance
  config_Server :: ServerConfig
  world :: "'w"
  trace :: "event list"

definition emit :: "event \<Rightarrow> 'w state \<Rightarrow> 'w state" where
  "emit e s = s\<lparr>trace := trace s @ [e]\<rparr>"

text \<open>The events a call added: the trace after it, without the trace before it.\<close>

definition emitted :: "'w state \<Rightarrow> 'w state \<Rightarrow> event list" where
  "emitted s s' = drop (length (trace s)) (trace s')"

fun is_registry_action :: "event \<Rightarrow> bool" where
  "is_registry_action EvExist = True"
| "is_registry_action (EvGetOne _) = True"
| "is_registry_action EvCreate = True"
| "is_registry_action (EvRegisterInstance _ _) = True"
| "is_registry_action (EvHeartbeat _ _) = True"
| "is_registry_action (EvUnregisterInstance _ _) = True"
| "is_registry_action _ = False"

definition registry_actions :: "event list \<Rightarrow> event list" where
  "registry_actions es = filter is_registry_action es"

subsection \<open>Registration\<close>

text \<open>
  \<open>registerService\<close>, lines 64 to 93. The response of \<open>GetOne\<close> is dereferenced before
  anything else is looked at, and its error is only passed to the logger.
\<close>

definition registerService :: "'w registry_client \<Rightarrow> 'w state \<Rightarrow> go_error option outcome \<times> 'w state" where
  "registerService api s =
    (let ((respE, err), w1) = ServiceAPI_Exist api (world s) (core_Service s);
         s1 = emit EvExist (s\<lparr>world := w1\<rparr>)
     in case err of
          Some e \<Rightarrow> (Return (Some e), emit (EvLog Error ''query service center existence failed'') s1)
        | None \<Rightarrow>
          (case respE of
             None \<Rightarrow> (Panic, s1)
           | Some rE \<Rightarrow>
             if GetCode (exist_Response rE) = ResponseSuccess then
               (let s2 = emit (EvLog Warn ''service center service[%s] already registered'') s1;
                    ((respG, errG), w2) = ServiceAPI_GetOne api (world s2) (exist_ServiceId rE);
                    s3 = emit (EvGetOne (exist_ServiceId rE)) (s2\<lparr>world := w2\<rparr>)
                in case respG of
                     None \<Rightarrow> (Panic, s3)
                   | Some rG \<Rightarrow>
                     if GetCode (get_Response rG) \<noteq> ResponseSuccess then
                       (Return (Some ErrServiceNotExists),
                        emit (EvLog Error ''query service center service[%s] info failed'') s3)
                     else (Return None, s3\<lparr>core_Service := get_Service rG\<rparr>))
             else
               (let ((respS, errS), w2) = ServiceAPI_Create api (world s1) (core_Service s1);
                    s2 = emit EvCreate (s1\<lparr>world := w2\<rparr>)
                in case errS of
                     Some e \<Rightarrow> (Return (Some e), emit (EvLog Error ''register service center failed'') s2)
                   | None \<Rightarrow>
                     (case respS of
                        None \<Rightarrow> (Panic, s2)
                      | Some rS \<Rightarrow>
                        if GetCode (create_Response rS) \<noteq> ResponseSuccess then
                          (Return (Some (ErrorsNew (GetMessage (create_Response rS)))),
                           emit (EvLog Error ''register service center failed, msg: '') s2)
                        else
                          (case core_Service s2 of
                             None \<Rightarrow> (Panic, s2)
                           | Some svc \<Rightarrow>
                             (Return None,
                              emit (EvLog Info ''register service center service[%s]'')
                                (s2\<lparr>core_Service := Some (svc\<lparr>svc_ServiceId := create_ServiceId rS\<rparr>)\<rparr>)))))))"

text \<open>\<open>registerInstance\<close>, lines 95 to 112.\<close>

definition registerInstance :: "'w registry_client \<Rightarrow> 'w state \<Rightarrow> go_error option outcome \<times> 'w state" where
  "registerInstance api s =
    (let s0 = s\<lparr>core_Instance := (core_Instance s)\<lparr>inst_InstanceId := []\<rparr>\<rparr>
     in case core_Service s0 of
          None \<Rightarrow> (Panic, s0)
        | Some svc \<Rightarrow>
          (let s1 = s0\<lparr>core_Instance := (core_Instance s0)\<lparr>inst_ServiceId := svc_ServiceId svc\<rparr>\<rparr>;
               ((respI, err), w1) = discosvc_RegisterInstance api (world s1) (core_Instance s1);
               s2 = emit (EvRegisterInstance (inst_ServiceId (core_Instance s1)) (inst_InstanceId (core_Instance s1)))
                      (s1\<lparr>world := w1\<rparr>)
           in case err of
                Some e \<Rightarrow> (Return (Some e), emit (EvLog Error ''register failed'') s2)
              | None \<Rightarrow>
                (case respI of
                   None \<Rightarrow> (Panic, s2)
                 | Some rI \<Rightarrow>
                   if GetCode (reginst_Response rI) \<noteq> ResponseSuccess then
                     (Return (Some (ErrorsNew (GetMessage (reginst_Response rI)))),
                      emit (EvLog Error ''register service center[%s] instance failed, %s'') s2)
                   else
                     (Return None,
                      emit (EvLog Info ''register service center instance[%s/%s], endpoints is %s'')
                        (s2\<lparr>core_Instance := (core_Instance s2)\<lparr>inst_InstanceId := reginst_InstanceId rI\<rparr>\<rparr>)))))"

text \<open>\<open>selfRegister\<close>, lines 54 to 62: the service, then the instance.\<close>

definition selfRegister :: "'w registry_client \<Rightarrow> 'w state \<Rightarrow> go_error option outcome \<times> 'w state" where
  "selfRegister api s =
    (case registerService api s of
       (Return None, s1) \<Rightarrow> registerInstance api s1
     | (r, s1) \<Rightarrow> (r, s1))"

text \<open>\<open>selfHeartBeat\<close>, lines 114 to 130.\<close>

definition selfHeartBeat :: "'w registry_client \<Rightarrow> 'w state \<Rightarrow> go_error option outcome \<times> 'w state" where
  "selfHeartBeat api s =
    (let ((respI, err), w1) = discosvc_Heartbeat api (world s) (core_Instance s);
         s1 = emit (EvHeartbeat (inst_ServiceId (core_Instance s)) (inst_InstanceId (core_Instance s)))
                (s\<lparr>world := w1\<rparr>)
     in case err of
          Some e \<Rightarrow> (Return (Some e), emit (EvLog Error ''send heartbeat failed'') s1)
        | None \<Rightarrow>
          (case respI of
             None \<Rightarrow> (Panic, s1)
           | Some rI \<Rightarrow>
             if GetCode (hb_Response rI) = ResponseSuccess then
               (Return None, emit (EvLog Debug ''update service center instance[%s/%s] heartbeat'') s1)
             else
               (Return (Some (FmtErrorf (GetMessage (hb_Response rI)) [])),
                emit (EvLog Error ''update service center instance[%s/%s] heartbeat failed'') s1)))"

subsection \<open>The heartbeat job\<close>

text \<open>
  \<open>autoSelfHeartBeat\<close>, lines 132 to 152, hands a loop to the goroutine pool. The loop
  waits in a \<open>select\<close> on the context's cancellation and on a timer of the health-check
  interval. The loop is given first over the branches its \<open>select\<close> takes, one per
  passage, and then under an environment that says when the context is cancelled and
  when the timer is due, from which the branch of each \<open>select\<close> follows.
\<close>

datatype wake = CtxDone | TimerFired

text \<open>
  How a run of the loop over a finite schedule of wake-ups ends: the loop returned, it
  is blocked in the \<open>select\<close> with the schedule used up, or the goroutine was stopped
  by a panic or an exit inside a call.
\<close>

datatype loop_end = Exited | Waiting | Stopped

text \<open>The timer branch, lines 139 to 148; \<open>True\<close> when the loop goes on.\<close>

definition heartbeat_tick :: "'w registry_client \<Rightarrow> 'w state \<Rightarrow> bool \<times> 'w state" where
  "heartbeat_tick api s =
    (case selfHeartBeat api s of
       (Return None, s1) \<Rightarrow> (True, s1)
     | (Return (Some e), s1) \<Rightarrow>
         (case selfRegister api s1 of
            (Return None, s2) \<Rightarrow> (True, s2)
          | (Return (Some e'), s2) \<Rightarrow>
              (case core_Service s2 of
                 None \<Rightarrow> (False, s2)
               | Some svc \<Rightarrow> (True, emit (EvLog Error ''retry to register[%s/%s/%s/%s] failed'') s2))
          | (_, s2) \<Rightarrow> (False, s2))
     | (_, s1) \<Rightarrow> (False, s1))"

fun heartbeat_loop :: "'w registry_client \<Rightarrow> wake list \<Rightarrow> 'w state \<Rightarrow> loop_end \<times> 'w state" where
  "heartbeat_loop api [] s = (Waiting, s)"
| "heartbeat_loop api (CtxDone # ws) s = (Exited, s)"
| "heartbeat_loop api (TimerFired # ws) s =
     (case heartbeat_tick api s of
        (True, s1) \<Rightarrow> heartbeat_loop api ws s1
      | (False, s1) \<Rightarrow> (Stopped, s1))"







text \<open>Starting the job only hands the loop over; the caller goes on at once.\<close>

definition autoSelfHeartBeat :: "'w state \<Rightarrow> 'w state" where
  "autoSelfHeartBeat s = emit EvGo s"

text \<open>\<open>SelfRegister\<close>, lines 44 to 52.\<close>

definition SelfRegister :: "'w registry_client \<Rightarrow> 'w state \<Rightarrow> go_error option outcome \<times> 'w state" where
  "SelfRegister api s =
    (case selfRegister api s of
       (Return None, s1) \<Rightarrow> (Return None, autoSelfHeartBeat s1)
     | (r, s1) \<Rightarrow> (r, s1))"

text \<open>\<open>SelfUnregister\<close>, lines 154 to 173.\<close>

definition SelfUnregister :: "'w registry_client \<Rightarrow> 'w state \<Rightarrow> go_error option outcome \<times> 'w state" where
  "SelfUnregister api s =
    (if length (inst_InstanceId (core_Instance s)) = 0 then (Return None, s)
     else
       (let ((respI, err), w1) = discosvc_UnregisterInstance api (world s) (core_Instance s);
            s1 = emit (EvUnregisterInstance (inst_ServiceId (core_Instance s)) (inst_InstanceId (core_Instance s)))
                   (s\<lparr>world := w1\<rparr>)
        in case err of
             Some e \<Rightarrow> (Return (Some e), emit (EvLog Error ''unregister failed'') s1)
           | None \<Rightarrow>
             (case respI of
                None \<Rightarrow> (Panic, s1)
              | Some rI \<Rightarrow>
                if GetCode (unreg_Response rI) \<noteq> ResponseSuccess then
                  (Return (Some (FmtErrorf ''unregister service center instance[%s/%s] failed, %s''
                       [inst_ServiceId (core_Instance s1), inst_InstanceId (core_Instance s1),
                        GetMessage (unreg_Response rI)])),
                   emit (EvLog Error ''unregister service center instance[%s/%s] failed, %s'') s1)
                else
                  (case core_Service s1 of
                     None \<Rightarrow> (Panic, s1)
                   | Some svc \<Rightarrow>
                     (Return None, emit (EvLog Warn ''unregister service center instance[%s/%s]'') s1)))))"

subsection \<open>Version upgrade\<close>

text \<open>\<open>UpgradeServerVersion\<close>, lines 178 to 184.\<close>

definition UpgradeServerVersion :: "'w upgrade_env \<Rightarrow> 'w state \<Rightarrow> go_error option \<times> 'w state" where
  "UpgradeServerVersion env s =
    (case json_Marshal env (config_Server s) of
       (bytes, Some e) \<Rightarrow> (Some e, s)
     | (bytes, None) \<Rightarrow>
         (let (err, w1) = etcdadpt_PutBytes env (world s) bytes
          in (err, emit (EvPutBytes bytes) (s\<lparr>world := w1\<rparr>))))"

text \<open>
  The end of \<open>UpgradeVersion\<close>, lines 200 to 204: unlock, log the error of the unlock
  if there is one, and return it. A nil handle, returned by \<open>mux.Lock\<close> with a nil
  error, makes the call of \<open>Unlock\<close> go through a nil pointer.
\<close>

definition unlock_and_return :: "'w upgrade_env \<Rightarrow> nat option \<Rightarrow> 'w state \<Rightarrow> go_error option outcome \<times> 'w state" where
  "unlock_and_return env lock s =
    (case lock of
       None \<Rightarrow> (Panic, s)
     | Some l \<Rightarrow>
         (let (err, w1) = lock_Unlock env (world s) l;
              s1 = emit (EvUnlock l) (s\<lparr>world := w1\<rparr>)
          in case err of
               Some e \<Rightarrow> (Return (Some e), emit (EvLog Error []) s1)
             | None \<Rightarrow> (Return None, s1)))"

text \<open>
  \<open>UpgradeVersion\<close>, lines 185 to 205. A failed write ends the process at line 197,
  before the statement that unlocks is reached.
\<close>

definition UpgradeVersion :: "'w upgrade_env \<Rightarrow> 'w state \<Rightarrow> go_error option outcome \<times> 'w state" where
  "UpgradeVersion env s =
    (let ((lock, err), w1) = mux_Lock env (world s);
         s1 = emit EvLock (s\<lparr>world := w1\<rparr>)
     in case err of
          Some e \<Rightarrow> (Return (Some e), emit (EvLog Error ''wait for server ready failed'') s1)
        | None \<Rightarrow>
          (let s2 = emit EvNeedUpgrade s1
           in if needUpgrade env (world s2) (config_Server s2) then
                (let s3 = s2\<lparr>config_Server := (config_Server s2)\<lparr>cfg_Version := version_Ver env\<rparr>\<rparr>
                 in case UpgradeServerVersion env s3 of
                      (Some e, s4) \<Rightarrow> (Exit 1, emit (EvLog Error ''upgrade server version failed'') s4)
                    | (None, s4) \<Rightarrow> unlock_and_return env lock s4)
              else unlock_and_return env lock s2))"

subsection \<open>Concrete nodes and collaborators\<close>

text \<open>
  The node as package \<open>core\<close> sets it up before registration, over a registry \<open>w\<close>:
  the identity comes from the static configuration, no serviceId or instanceId yet.
\<close>

definition node0 :: "'w \<Rightarrow> 'w state" where
  "node0 w =
    \<lparr>core_Service = Some \<lparr>svc_Environment = ''production'', svc_AppId = ''default'',
        svc_ServiceName = ''SERVICECENTER'', svc_Version = ''2.0'', svc_ServiceId = []\<rparr>,
     core_Instance = \<lparr>inst_InstanceId = [], inst_ServiceId = [],
        inst_Endpoints = [''rest://127.0.0.1:30100''], inst_HealthCheck_Interval = 30\<rparr>,
     config_Server = \<lparr>cfg_Version = ''2.0''\<rparr>,
     world = w,
     trace = []\<rparr>"

text \<open>
  An upgrade environment whose store is the persisted version string itself: the lock
  is free, an upgrade is needed when the persisted version differs from \<open>2.0\<close>, and
  the write replaces the persisted version.
\<close>

definition env_version_store :: "string upgrade_env" where
  "env_version_store =
    \<lparr>mux_Lock = (\<lambda>w. ((Some 7, None), w)),
     lock_Unlock = (\<lambda>w l. (None, w)),
     needUpgrade = (\<lambda>w c. w \<noteq> ''2.0''),
     json_Marshal = (\<lambda>c. (cfg_Version c, None)),
     etcdadpt_PutBytes = (\<lambda>w b. (None, b)),
     version_Ver = ''2.0''\<rparr>"

text \<open>The same environment, with a store that refuses the write.\<close>

definition env_write_fails :: "string upgrade_env" where
  "env_write_fails =
     env_version_store\<lparr>etcdadpt_PutBytes :=
       (\<lambda>w b. (Some (External ''etcdserver: request timed out''), w))\<rparr>"

subsection \<open>Reading traces\<close>

fun is_unlock :: "event \<Rightarrow> bool" where
  "is_unlock (EvUnlock _) = True"
| "is_unlock _ = False"

text \<open>How many times a lock was released in a list of events.\<close>

definition releases :: "event list \<Rightarrow> nat" where
  "releases es = length (filter is_unlock es)"


fun is_heartbeat :: "event \<Rightarrow> bool" where
  "is_heartbeat (EvHeartbeat _ _) = True"
| "is_heartbeat _ = False"

text \<open>The trace of \<open>s'\<close> is that of \<open>s\<close> followed by events that all satisfy \<open>P\<close>.\<close>

definition grows :: "(event \<Rightarrow> bool) \<Rightarrow> 'w state \<Rightarrow> 'w state \<Rightarrow> bool" where
  "grows P s s' \<longleftrightarrow> (\<exists>es. trace s' = trace s @ es \<and> list_all P es)"

definition service_id :: "'w state \<Rightarrow> string option" where
  "service_id s = map_option svc_ServiceId (core_Service s)"

subsection \<open>A registry behind the client\<close>

text \<open>
  Modelled from the spec: the registry that answers the client (the service and
  instance store of the service center) is not in this file. The spec gives its
  contract: records of services, found by identity (environment, application, name,
  version) or by serviceId, and records of instances; every answer is a status, success
  or failure with a message. A registry is the list of its service records and the list
  of its instances, each a pair of serviceId and instanceId.
\<close>

record registry =
  reg_services :: "MicroService list"
  reg_instances :: "(string \<times> string) list"

text \<open>Modelled from the spec: two service records match when their identities are equal.\<close>

definition same_identity :: "MicroService \<Rightarrow> MicroService \<Rightarrow> bool" where
  "same_identity a b \<longleftrightarrow>
     svc_Environment a = svc_Environment b \<and> svc_AppId a = svc_AppId b
     \<and> svc_ServiceName a = svc_ServiceName b \<and> svc_Version a = svc_Version b"

text \<open>
  Modelled from the spec: a status is the success sentinel, or a failure code with a
  message. Which failure code it is has no consequence, the manager only compares with
  success.
\<close>

definition status_ok :: "Response option" where
  "status_ok = Some \<lparr>resp_Code = ResponseSuccess, resp_Message = []\<rparr>"

text \<open>Modelled from the spec: a failure status with its message.\<close>

definition status_failed :: "string \<Rightarrow> Response option" where
  "status_failed msg = Some \<lparr>resp_Code = 1, resp_Message = msg\<rparr>"

text \<open>
  Modelled from the spec: \<open>Exist(identity)\<close> answers with the serviceId of the first
  record of that identity, or with a failure when there is none.
\<close>

definition reg_Exist :: "registry \<Rightarrow> MicroService option \<Rightarrow> (GetExistenceResponse option \<times> go_error option) \<times> registry" where
  "reg_Exist R q =
    (case q of
       None \<Rightarrow> ((Some \<lparr>exist_Response = status_failed ''invalid request'', exist_ServiceId = []\<rparr>, None), R)
     | Some svc \<Rightarrow>
        (case find (same_identity svc) (reg_services R) of
           None \<Rightarrow> ((Some \<lparr>exist_Response = status_failed ''service does not exist'', exist_ServiceId = []\<rparr>, None), R)
         | Some r \<Rightarrow> ((Some \<lparr>exist_Response = status_ok, exist_ServiceId = svc_ServiceId r\<rparr>, None), R)))"

text \<open>Modelled from the spec: \<open>GetById(serviceId)\<close> answers with the record of that id.\<close>

definition reg_GetOne :: "registry \<Rightarrow> string \<Rightarrow> (GetServiceResponse option \<times> go_error option) \<times> registry" where
  "reg_GetOne R sid =
    (case find (\<lambda>r. svc_ServiceId r = sid) (reg_services R) of
       None \<Rightarrow> ((Some \<lparr>get_Response = status_failed ''service does not exist'', get_Service = None\<rparr>, None), R)
     | Some r \<Rightarrow> ((Some \<lparr>get_Response = status_ok, get_Service = Some r\<rparr>, None), R))"

text \<open>
  Modelled from the spec: \<open>Create(request)\<close> stores the service under a serviceId that
  the registry assigns (the generator \<open>sgen\<close> stands for how it chooses) and answers with
  that id; an id already in use is refused, so that ids stay distinct.
\<close>

definition reg_Create :: "(registry \<Rightarrow> string) \<Rightarrow> registry \<Rightarrow> MicroService option \<Rightarrow> (CreateServiceResponse option \<times> go_error option) \<times> registry" where
  "reg_Create sgen R q =
    (case q of
       None \<Rightarrow> ((Some \<lparr>create_Response = status_failed ''invalid request'', create_ServiceId = []\<rparr>, None), R)
     | Some svc \<Rightarrow>
        if sgen R \<in> set (map svc_ServiceId (reg_services R))
        then ((Some \<lparr>create_Response = status_failed ''service id already exists'', create_ServiceId = []\<rparr>, None), R)
        else ((Some \<lparr>create_Response = status_ok, create_ServiceId = sgen R\<rparr>, None),
              R\<lparr>reg_services := reg_services R @ [svc\<lparr>svc_ServiceId := sgen R\<rparr>]\<rparr>))"

text \<open>
  Modelled from the spec: \<open>CreateInstance(request)\<close> stores an instance of an existing
  service under an instanceId that the registry assigns (\<open>igen\<close>).
\<close>

definition reg_RegisterInstance :: "(registry \<Rightarrow> string) \<Rightarrow> registry \<Rightarrow> MicroServiceInstance \<Rightarrow> (RegisterInstanceResponse option \<times> go_error option) \<times> registry" where
  "reg_RegisterInstance igen R inst =
    (if inst_ServiceId inst \<in> set (map svc_ServiceId (reg_services R))
     then ((Some \<lparr>reginst_Response = status_ok, reginst_InstanceId = igen R\<rparr>, None),
           R\<lparr>reg_instances := reg_instances R @ [(inst_ServiceId inst, igen R)]\<rparr>)
     else ((Some \<lparr>reginst_Response = status_failed ''service does not exist'', reginst_InstanceId = []\<rparr>, None), R))"

text \<open>Modelled from the spec: \<open>Renew(serviceId, instanceId)\<close> succeeds for a stored instance.\<close>

definition reg_Heartbeat :: "registry \<Rightarrow> MicroServiceInstance \<Rightarrow> (HeartbeatResponse option \<times> go_error option) \<times> registry" where
  "reg_Heartbeat R inst =
    (if (inst_ServiceId inst, inst_InstanceId inst) \<in> set (reg_instances R)
     then ((Some \<lparr>hb_Response = status_ok\<rparr>, None), R)
     else ((Some \<lparr>hb_Response = status_failed ''instance does not exist''\<rparr>, None), R))"

text \<open>Modelled from the spec: \<open>RemoveInstance(serviceId, instanceId)\<close> removes a stored instance.\<close>

definition reg_UnregisterInstance :: "registry \<Rightarrow> MicroServiceInstance \<Rightarrow> (UnregisterInstanceResponse option \<times> go_error option) \<times> registry" where
  "reg_UnregisterInstance R inst =
    (if (inst_ServiceId inst, inst_InstanceId inst) \<in> set (reg_instances R)
     then ((Some \<lparr>unreg_Response = status_ok\<rparr>, None),
           R\<lparr>reg_instances := removeAll (inst_ServiceId inst, inst_InstanceId inst) (reg_instances R)\<rparr>)
     else ((Some \<lparr>unreg_Response = status_failed ''instance does not exist''\<rparr>, None), R))"

text \<open>Modelled from the spec: the client of such a registry.\<close>

definition registry_api :: "(registry \<Rightarrow> string) \<Rightarrow> (registry \<Rightarrow> string) \<Rightarrow> registry registry_client" where
  "registry_api sgen igen =
    \<lparr>ServiceAPI_Exist = reg_Exist,
     ServiceAPI_GetOne = reg_GetOne,
     ServiceAPI_Create = reg_Create sgen,
     discosvc_RegisterInstance = reg_RegisterInstance igen,
     discosvc_Heartbeat = reg_Heartbeat,
     discosvc_UnregisterInstance = reg_UnregisterInstance\<rparr>"

text \<open>
  The node is registered when its identity is that of a record of the registry and it
  holds the serviceId of that record.
\<close>

definition registered :: "registry state \<Rightarrow> bool" where
  "registered s \<longleftrightarrow>
     (\<exists>c c'. core_Service s = Some c
        \<and> find (same_identity c) (reg_services (world s)) = Some c'
        \<and> svc_ServiceId c' = svc_ServiceId c)"

text \<open>
  Concrete registries and clients: the service center's own record under a given id, an
  empty registry, a registry that holds the record under \<open>S1\<close>, a client whose ids are
  \<open>S\<close> and \<open>I\<close> followed by one mark per record already stored, a client whose
  \<open>Create\<close> is refused, and two clients whose lookup by id fails with an error of the
  call: one returns no response with it, the other an empty response.
\<close>

definition sc_record :: "string \<Rightarrow> MicroService" where
  "sc_record sid = \<lparr>svc_Environment = ''production'', svc_AppId = ''default'',
        svc_ServiceName = ''SERVICECENTER'', svc_Version = ''2.0'', svc_ServiceId = sid\<rparr>"

definition registry_empty :: registry where
  "registry_empty = \<lparr>reg_services = [], reg_instances = []\<rparr>"

definition registry_S1 :: registry where
  "registry_S1 = \<lparr>reg_services = [sc_record ''S1''], reg_instances = []\<rparr>"

definition test_api :: "registry registry_client" where
  "test_api = registry_api (\<lambda>R. ''S'' @ replicate (length (reg_services R)) CHR ''+'')
                           (\<lambda>R. ''I'' @ replicate (length (reg_instances R)) CHR ''+'')"

definition client_create_refused :: "registry registry_client" where
  "client_create_refused = test_api\<lparr>ServiceAPI_Create :=
      (\<lambda>w q. ((Some \<lparr>create_Response = status_failed ''quota exceeded'', create_ServiceId = []\<rparr>, None), w))\<rparr>"

definition client_lookup_nil :: "registry registry_client" where
  "client_lookup_nil = test_api\<lparr>ServiceAPI_GetOne :=
      (\<lambda>w sid. ((None, Some (External ''context deadline exceeded'')), w))\<rparr>"

definition client_lookup_empty :: "registry registry_client" where
  "client_lookup_empty = test_api\<lparr>ServiceAPI_GetOne :=
      (\<lambda>w sid. ((Some \<lparr>get_Response = None, get_Service = None\<rparr>,
                  Some (External ''context deadline exceeded'')), w))\<rparr>"

text \<open>The node after its first registration in the empty registry through \<open>test_api\<close>.\<close>

definition node1 :: "registry state" where
  "node1 =
    \<lparr>core_Service = Some (sc_record ''S''),
     core_Instance = \<lparr>inst_InstanceId = ''I'', inst_ServiceId = ''S'',
        inst_Endpoints = [''rest://127.0.0.1:30100''], inst_HealthCheck_Interval = 30\<rparr>,
     config_Server = \<lparr>cfg_Version = ''2.0''\<rparr>,
     world = \<lparr>reg_services = [sc_record ''S''], reg_instances = [(''S'', ''I'')]\<rparr>,
     trace = [EvExist, EvCreate, EvLog Info ''register service center service[%s]'',
        EvRegisterInstance ''S'' [],
        EvLog Info ''register service center instance[%s/%s], endpoints is %s'', EvGo]\<rparr>"





section \<open>Properties\<close>

lemmas eval_defs =
  SelfRegister_def selfRegister_def registerService_def registerInstance_def selfHeartBeat_def
  SelfUnregister_def heartbeat_tick_def autoSelfHeartBeat_def
  UpgradeVersion_def UpgradeServerVersion_def unlock_and_return_def
  env_version_store_def env_write_fails_def
  registry_api_def reg_Exist_def reg_GetOne_def reg_Create_def reg_RegisterInstance_def
  reg_Heartbeat_def reg_UnregisterInstance_def
  test_api_def client_create_refused_def client_lookup_nil_def client_lookup_empty_def
  node0_def sc_record_def registry_empty_def registry_S1_def status_ok_def status_failed_def
  GetCode_def GetMessage_def ResponseSuccess_def same_identity_def
  emit_def emitted_def registry_actions_def releases_def service_id_def Let_def


subsection \<open>Traces only grow\<close>





lemma registerService_trace:
  assumes "\<And>i. P (EvGetOne i)" and "P EvCreate" and "\<And>l m. P (EvLog l m)"
  shows "\<exists>es. trace (snd (registerService api s)) = trace s @ EvExist # es \<and> list_all P es"
  using assms
  by (simp add: registerService_def emit_def Let_def split: prod.splits option.splits)

lemma registerInstance_trace:
  assumes "\<And>a b. P (EvRegisterInstance a b)" and "\<And>l m. P (EvLog l m)"
  shows "grows P s (snd (registerInstance api s))"
  using assms
  by (simp add: grows_def registerInstance_def emit_def Let_def split: prod.splits option.splits)

lemma selfRegister_trace:
  assumes "\<And>i. P (EvGetOne i)" and "P EvCreate" and "\<And>l m. P (EvLog l m)"
    and "\<And>a b. P (EvRegisterInstance a b)"
  shows "\<exists>es. trace (snd (selfRegister api s)) = trace s @ EvExist # es \<and> list_all P es"
proof -
  obtain r sa where rs: "registerService api s = (r, sa)" by (cases "registerService api s")
  from registerService_trace[of P api s] assms rs
  obtain es where es: "trace sa = trace s @ EvExist # es" "list_all P es" by auto
  show ?thesis
  proof (cases "r = Return None")
    case True
    from registerInstance_trace[of P sa api] assms obtain es' where
      "trace (snd (registerInstance api sa)) = trace sa @ es'" "list_all P es'"
      by (auto simp: grows_def)
    with es True rs show ?thesis by (simp add: selfRegister_def)
  next
    case False
    with es rs show ?thesis
      by (auto simp add: selfRegister_def split: outcome.splits option.splits)
  qed
qed




subsection \<open>Version upgrade\<close>

text \<open>
  C1, as the code has it. When the lock is acquired, \<open>UpgradeVersion\<close> ends in one of
  two ways. If an upgrade is needed and the write of the version fails (in
  \<open>json.Marshal\<close> or in \<open>PutBytes\<close>), the process exits with status 1 and the lock has
  not been released. Otherwise, the write having succeeded or not being needed, the
  call returns, the lock has been released exactly once, it is the lock that was
  acquired, and no write follows the release.
\<close>

theorem UpgradeVersion_lock_discipline:
  assumes "mux_Lock env (world s) = ((Some l, None), w1)"
  shows "let s3 = s\<lparr>world := w1, trace := trace s @ [EvLock, EvNeedUpgrade],
                      config_Server := (config_Server s)\<lparr>cfg_Version := version_Ver env\<rparr>\<rparr>;
             (r, s') = UpgradeVersion env s
         in if needUpgrade env w1 (config_Server s) \<and> fst (UpgradeServerVersion env s3) \<noteq> None
            then r = Exit 1 \<and> releases (emitted s s') = 0
            else (\<exists>e. r = Return e) \<and> releases (emitted s s') = 1
                 \<and> filter is_unlock (emitted s s') = [EvUnlock l]
                 \<and> (\<forall>b. EvPutBytes b \<notin> set (dropWhile (\<lambda>e. \<not> is_unlock e) (emitted s s')))"
  using assms
  by (auto simp add: UpgradeVersion_def UpgradeServerVersion_def unlock_and_return_def emit_def
      emitted_def releases_def Let_def split: prod.splits option.splits if_splits)

theorem UpgradeVersion_lock_discipline_witness:
  "fst (UpgradeVersion env_version_store (node0 ''1.0'')) = Return None
   \<and> releases (emitted (node0 ''1.0'') (snd (UpgradeVersion env_version_store (node0 ''1.0'')))) = 1
   \<and> world (snd (UpgradeVersion env_version_store (node0 ''1.0''))) = ''2.0''"
  using UpgradeVersion_lock_discipline [where env = env_version_store and s = "node0 ''1.0''"
      and l = 7 and ?w1.0 = "''1.0''"]
  by (simp add: eval_defs)

text \<open>
  C1, as the claim states it, fails where the write fails: the lock is acquired, the
  process exits with status 1, and the number of releases is not one.
\<close>

theorem UpgradeVersion_fatal_branch_keeps_lock:
  "fst (mux_Lock env_write_fails (world (node0 ''1.0''))) = (Some 7, None)
   \<and> fst (UpgradeVersion env_write_fails (node0 ''1.0'')) = Exit 1
   \<and> releases (emitted (node0 ''1.0'') (snd (UpgradeVersion env_write_fails (node0 ''1.0'')))) \<noteq> 1"
  by (simp add: eval_defs)

text \<open>
  C5. When the lock is acquired, no upgrade is needed (the persisted version is that of
  the running binary) and the release succeeds, \<open>UpgradeVersion\<close> returns no error; all
  it did is take the lock, check, and release the lock: nothing was written, and the
  configuration and the identities are as before.
\<close>

theorem UpgradeVersion_no_upgrade:
  assumes "mux_Lock env (world s) = ((Some l, None), w1)"
    and "\<not> needUpgrade env w1 (config_Server s)"
    and "lock_Unlock env w1 l = (None, w2)"
  shows "UpgradeVersion env s
    = (Return None, s\<lparr>world := w2, trace := trace s @ [EvLock, EvNeedUpgrade, EvUnlock l]\<rparr>)"
  using assms
  by (simp add: UpgradeVersion_def unlock_and_return_def emit_def Let_def)

theorem UpgradeVersion_no_upgrade_witness:
  "UpgradeVersion env_version_store (node0 ''2.0'')
   = (Return None, (node0 ''2.0'')\<lparr>trace := [EvLock, EvNeedUpgrade, EvUnlock 7]\<rparr>)"
  using UpgradeVersion_no_upgrade [where env = env_version_store and s = "node0 ''2.0''"
      and l = 7 and ?w1.0 = "''2.0''" and ?w2.0 = "''2.0''"]
  by (simp add: env_version_store_def node0_def)

subsection \<open>Registering the instance, deregistering, renewing\<close>

text \<open>
  C6. \<open>registerInstance\<close> clears the instanceId, copies the serviceId of the service
  identity into the instance, and only then submits the request: the one registry
  action of the call is a create-instance request that carries this serviceId and an
  empty instanceId. If the call fails its error is returned, if the registry answers
  with a non-success status the error returned carries the registry's message, and in
  both cases (and when the call panics on a nil response) the instanceId stays empty;
  only on a success status is the instanceId of the response stored. Without a service
  identity (a nil \<open>core.Service\<close>) the call panics after clearing the instanceId, and
  no request is sent.
\<close>

theorem registerInstance_spec:
  "case core_Service s of
     None \<Rightarrow> registerInstance api s = (Panic, s\<lparr>core_Instance := (core_Instance s)\<lparr>inst_InstanceId := []\<rparr>\<rparr>)
   | Some svc \<Rightarrow>
      (let ((respI, err), w1) = discosvc_RegisterInstance api (world s)
               ((core_Instance s)\<lparr>inst_InstanceId := [], inst_ServiceId := svc_ServiceId svc\<rparr>);
           (r, s') = registerInstance api s
       in registry_actions (emitted s s') = [EvRegisterInstance (svc_ServiceId svc) []]
          \<and> inst_ServiceId (core_Instance s') = svc_ServiceId svc
          \<and> core_Service s' = core_Service s
          \<and> (case err of
                Some e \<Rightarrow> r = Return (Some e) \<and> inst_InstanceId (core_Instance s') = []
              | None \<Rightarrow>
                (case respI of
                   None \<Rightarrow> r = Panic \<and> inst_InstanceId (core_Instance s') = []
                 | Some rI \<Rightarrow>
                     if GetCode (reginst_Response rI) \<noteq> ResponseSuccess
                     then r = Return (Some (ErrorsNew (GetMessage (reginst_Response rI))))
                          \<and> inst_InstanceId (core_Instance s') = []
                     else r = Return None
                          \<and> inst_InstanceId (core_Instance s') = reginst_InstanceId rI)))"
  by (simp add: registerInstance_def emit_def emitted_def registry_actions_def Let_def
      split: prod.splits option.splits)

theorem registerInstance_spec_witness:
  "fst (registerInstance test_api ((node0 registry_S1)\<lparr>core_Service := Some (sc_record ''S1'')\<rparr>)) = Return None
   \<and> inst_InstanceId (core_Instance (snd (registerInstance test_api
        ((node0 registry_S1)\<lparr>core_Service := Some (sc_record ''S1'')\<rparr>)))) = ''I''
   \<and> fst (registerInstance test_api ((node0 registry_empty)\<lparr>core_Service := Some (sc_record ''S1'')\<rparr>))
       = Return (Some (ErrorsNew ''service does not exist''))
   \<and> inst_InstanceId (core_Instance (snd (registerInstance test_api
        ((node0 registry_empty)\<lparr>core_Service := Some (sc_record ''S1'')\<rparr>)))) = []"
  using registerInstance_spec [where s = "(node0 registry_S1)\<lparr>core_Service := Some (sc_record ''S1'')\<rparr>"
      and api = test_api]
    registerInstance_spec [where s = "(node0 registry_empty)\<lparr>core_Service := Some (sc_record ''S1'')\<rparr>"
      and api = test_api]
  by (simp add: eval_defs)

text \<open>
  C7. With an empty instanceId \<open>SelfUnregister\<close> returns no error and does nothing at
  all: the state, the registry and the trace are as before. With a non-empty instanceId
  its one registry action is a remove-instance request for the current serviceId and
  instanceId, and it returns an error exactly when the call returned an error or the
  response carries a non-success status.
\<close>

theorem SelfUnregister_spec:
  "(inst_InstanceId (core_Instance s) = [] \<longrightarrow> SelfUnregister api s = (Return None, s))
   \<and> (inst_InstanceId (core_Instance s) \<noteq> [] \<longrightarrow>
        discosvc_UnregisterInstance api (world s) (core_Instance s) = ((respI, err), w1) \<longrightarrow>
        registry_actions (emitted s (snd (SelfUnregister api s)))
          = [EvUnregisterInstance (inst_ServiceId (core_Instance s)) (inst_InstanceId (core_Instance s))]
        \<and> ((\<exists>e. fst (SelfUnregister api s) = Return (Some e))
             \<longleftrightarrow> (err \<noteq> None \<or> (\<exists>rI. respI = Some rI \<and> GetCode (unreg_Response rI) \<noteq> ResponseSuccess))))"
  by (auto simp add: SelfUnregister_def emit_def emitted_def registry_actions_def Let_def
      split: prod.splits option.splits)

theorem SelfUnregister_spec_witness:
  "SelfUnregister test_api (node0 registry_empty) = (Return None, node0 registry_empty)
   \<and> inst_InstanceId (core_Instance (snd (SelfRegister test_api (node0 registry_empty)))) = ''I''
   \<and> registry_actions (emitted (snd (SelfRegister test_api (node0 registry_empty)))
        (snd (SelfUnregister test_api (snd (SelfRegister test_api (node0 registry_empty))))))
      = [EvUnregisterInstance ''S'' ''I'']
   \<and> fst (SelfUnregister test_api (snd (SelfRegister test_api (node0 registry_empty)))) = Return None
   \<and> (\<exists>e. fst (SelfUnregister test_api
        ((node0 registry_empty)\<lparr>core_Instance := (core_Instance (node0 registry_empty))\<lparr>inst_InstanceId := ''I9''\<rparr>\<rparr>))
        = Return (Some e))"
  using SelfUnregister_spec [where s = "node0 registry_empty" and api = test_api]
    SelfUnregister_spec [where s = "snd (SelfRegister test_api (node0 registry_empty))" and api = test_api
      and respI = "Some \<lparr>unreg_Response = status_ok\<rparr>" and err = None
      and ?w1.0 = "\<lparr>reg_services = [sc_record ''S''], reg_instances = []\<rparr>"]
    SelfUnregister_spec [where s = "(node0 registry_empty)\<lparr>core_Instance :=
          (core_Instance (node0 registry_empty))\<lparr>inst_InstanceId := ''I9''\<rparr>\<rparr>"
      and api = test_api
      and respI = "Some \<lparr>unreg_Response = status_failed ''instance does not exist''\<rparr>"
      and err = None and ?w1.0 = registry_empty]
  by (simp add: eval_defs)

text \<open>
  C9. \<open>selfHeartBeat\<close> leaves the service identity and the instance identity
  (serviceId, instanceId, endpoints, health-check interval) as they were, however the
  renewal ends: on success, on an error of the call, on a non-success status.
\<close>

theorem selfHeartBeat_frame:
  "core_Service (snd (selfHeartBeat api s)) = core_Service s
   \<and> core_Instance (snd (selfHeartBeat api s)) = core_Instance s"
  by (simp add: selfHeartBeat_def emit_def Let_def split: prod.splits option.splits)

subsection \<open>The heartbeat job\<close>













lemma registerService_error_frame:
  "fst (registerService api s) = Return (Some e) \<Longrightarrow> core_Service (snd (registerService api s)) = core_Service s"
  by (auto simp add: registerService_def emit_def Let_def split: prod.splits option.splits if_splits)

lemma registerInstance_error_identity:
  "fst (registerInstance api s) = Return (Some e) \<Longrightarrow> core_Service (snd (registerInstance api s)) \<noteq> None"
  by (auto simp add: registerInstance_def emit_def Let_def split: prod.splits option.splits if_splits)

lemma selfRegister_error_identity:
  assumes "core_Service s \<noteq> None" and "selfRegister api s = (Return (Some e), s2)"
  shows "core_Service s2 \<noteq> None"
proof -
  obtain r sa where rs: "registerService api s = (r, sa)" by (cases "registerService api s")
  show ?thesis
  proof (cases "r = Return None")
    case True
    with rs assms(2) have "registerInstance api sa = (Return (Some e), s2)"
      by (simp add: selfRegister_def)
    with registerInstance_error_identity[of api sa e] show ?thesis by simp
  next
    case False
    with rs assms(2) have "r = Return (Some e)" "sa = s2"
      by (auto simp add: selfRegister_def split: outcome.splits option.splits)
    with registerService_error_frame[of api s e] rs assms(1) show ?thesis by simp
  qed
qed

lemma selfHeartBeat_identity: "core_Service (snd (selfHeartBeat api s)) = core_Service s"
  by (simp add: selfHeartBeat_def emit_def Let_def split: prod.splits option.splits)

lemma registerInstance_actions:
  "core_Service s = Some c \<Longrightarrow>
   registry_actions (emitted s (snd (registerInstance api s))) = [EvRegisterInstance (svc_ServiceId c) []]"
  by (simp add: registerInstance_def emit_def emitted_def registry_actions_def Let_def
      split: prod.splits option.splits)

text \<open>
  What the loop does after a renewal that returned an error, the node having a service
  identity: it runs \<open>selfRegister\<close> in the same passage. The next registry action is the
  existence query that opens \<open>registerService\<close>, and no renewal is among the actions of
  the recovery; when \<open>registerService\<close> succeeds, \<open>registerInstance\<close> follows, and its
  create-instance request closes the recovery. If the recovery succeeds the loop goes
  on from the state it left; if it returns an error, the loop logs it and goes on from
  that state, to which only the log line is added; if it panics, the loop is stopped.
\<close>

lemma heartbeat_failure_reregisters:
  assumes hb: "selfHeartBeat api s = (Return (Some e), s1)"
    and svc: "core_Service s \<noteq> None"
  shows "let (r, s2) = selfRegister api s1
         in (\<exists>rest. registry_actions (emitted s1 s2) = EvExist # rest \<and> filter is_heartbeat rest = [])
            \<and> (\<forall>sa c. registerService api s1 = (Return None, sa) \<longrightarrow> core_Service sa = Some c \<longrightarrow>
                  s2 = snd (registerInstance api sa)
                  \<and> registry_actions (emitted s1 s2)
                      = registry_actions (emitted s1 sa) @ [EvRegisterInstance (svc_ServiceId c) []])
            \<and> (case r of
                  Return None \<Rightarrow> heartbeat_loop api (TimerFired # ws) s = heartbeat_loop api ws s2
                | Return (Some e') \<Rightarrow>
                    heartbeat_loop api (TimerFired # ws) s
                      = heartbeat_loop api ws (emit (EvLog Error ''retry to register[%s/%s/%s/%s] failed'') s2)
                | _ \<Rightarrow> heartbeat_loop api (TimerFired # ws) s = (Stopped, s2))"
proof -
  obtain r s2 where sr: "selfRegister api s1 = (r, s2)" by (cases "selfRegister api s1")
  have id1: "core_Service s1 \<noteq> None"
    using selfHeartBeat_identity[of api s] hb svc by simp
  have first: "\<exists>rest. registry_actions (emitted s1 s2) = EvExist # rest \<and> filter is_heartbeat rest = []"
  proof -
    from selfRegister_trace[of "\<lambda>e. \<not> is_heartbeat e" api s1] sr
    obtain es where es: "trace s2 = trace s1 @ EvExist # es" "list_all (\<lambda>e. \<not> is_heartbeat e) es"
      by auto
    then have "registry_actions (emitted s1 s2) = EvExist # filter is_registry_action es"
      by (simp add: emitted_def registry_actions_def)
    moreover have "filter is_heartbeat (filter is_registry_action es) = []"
      using es(2) by (auto simp: filter_empty_conv list_all_iff)
    ultimately show ?thesis by blast
  qed
  have full: "s2 = snd (registerInstance api sa)
      \<and> registry_actions (emitted s1 s2)
          = registry_actions (emitted s1 sa) @ [EvRegisterInstance (svc_ServiceId c) []]"
    if rs: "registerService api s1 = (Return None, sa)" and c: "core_Service sa = Some c" for sa c
  proof -
    from rs sr have s2: "s2 = snd (registerInstance api sa)" by (simp add: selfRegister_def)
    from registerService_trace[of "\<lambda>e. True" api s1] rs
    obtain es where es: "trace sa = trace s1 @ EvExist # es" by auto
    from registerInstance_trace[of "\<lambda>e. True" sa api]
    obtain es' where es': "trace s2 = trace sa @ es'" by (auto simp: grows_def s2)
    have "emitted sa s2 = es'" using es' by (simp add: emitted_def)
    moreover have "emitted s1 s2 = emitted s1 sa @ es'" using es es' by (simp add: emitted_def)
    ultimately show ?thesis
      using registerInstance_actions[OF c, of api] s2 by (simp add: registry_actions_def)
  qed
  have cont: "case r of
        Return None \<Rightarrow> heartbeat_loop api (TimerFired # ws) s = heartbeat_loop api ws s2
      | Return (Some e') \<Rightarrow>
          heartbeat_loop api (TimerFired # ws) s
            = heartbeat_loop api ws (emit (EvLog Error ''retry to register[%s/%s/%s/%s] failed'') s2)
      | _ \<Rightarrow> heartbeat_loop api (TimerFired # ws) s = (Stopped, s2)"
  proof (cases r)
    case (Return x)
    show ?thesis
    proof (cases x)
      case None
      with Return hb sr show ?thesis by (simp add: heartbeat_tick_def)
    next
      case (Some e')
      with Return sr selfRegister_error_identity[OF id1, of api e' s2]
      obtain c where "core_Service s2 = Some c" by auto
      with Some Return hb sr show ?thesis by (simp add: heartbeat_tick_def)
    qed
  next
    case Panic
    with hb sr show ?thesis by (simp add: heartbeat_tick_def)
  next
    case (Exit n)
    with hb sr show ?thesis by (simp add: heartbeat_tick_def)
  qed
  show ?thesis
    unfolding sr Let_def prod.case using first full cont by blast
qed

lemma heartbeat_failure_reregisters_example:
  "fst (selfHeartBeat test_api (node0 registry_empty)) = Return (Some (FmtErrorf ''instance does not exist'' []))
   \<and> registry_actions (emitted (snd (selfHeartBeat test_api (node0 registry_empty)))
         (snd (selfRegister test_api (snd (selfHeartBeat test_api (node0 registry_empty))))))
       = [EvExist, EvCreate, EvRegisterInstance ''S'' []]
   \<and> heartbeat_loop test_api [TimerFired, CtxDone] (node0 registry_empty)
       = (Exited, snd (selfRegister test_api (snd (selfHeartBeat test_api (node0 registry_empty)))))
   \<and> fst (selfRegister client_create_refused (snd (selfHeartBeat client_create_refused (node0 registry_empty))))
       = Return (Some (ErrorsNew ''quota exceeded''))
   \<and> heartbeat_loop client_create_refused [TimerFired] (node0 registry_empty)
       = (Waiting, emit (EvLog Error ''retry to register[%s/%s/%s/%s] failed'')
            (snd (selfRegister client_create_refused (snd (selfHeartBeat client_create_refused (node0 registry_empty))))))"
  using heartbeat_failure_reregisters [where api = test_api and s = "node0 registry_empty"
      and e = "FmtErrorf ''instance does not exist'' []"
      and ?s1.0 = "snd (selfHeartBeat test_api (node0 registry_empty))" and ws = "[CtxDone]"]
    heartbeat_failure_reregisters [where api = client_create_refused and s = "node0 registry_empty"
      and e = "FmtErrorf ''instance does not exist'' []"
      and ?s1.0 = "snd (selfHeartBeat client_create_refused (node0 registry_empty))" and ws = "[]"]
  by (simp add: eval_defs)

text \<open>
  C4. A renewal returns an error, and in the recovery the existence query reports a
  record whose lookup by id returns a nil response with an error of the call. The
  recovery starts as the claim says, with the existence query; but \<open>registerService\<close>
  panics on the nil response, and the loop is stopped: the failure is not logged by the
  loop, and the next timer is never served.
\<close>

theorem heartbeat_recovery_panic_stops_loop:
  "fst (selfHeartBeat client_lookup_nil (node0 registry_S1))
     = Return (Some (FmtErrorf ''instance does not exist'' []))
   \<and> heartbeat_loop client_lookup_nil [TimerFired, TimerFired] (node0 registry_S1)
     = (Stopped, (node0 registry_S1)\<lparr>trace :=
          [EvHeartbeat [] [], EvLog Error ''update service center instance[%s/%s] heartbeat failed'',
           EvExist, EvLog Warn ''service center service[%s] already registered'', EvGetOne ''S1'']\<rparr>)"
  by (simp add: eval_defs)

subsection \<open>Registering the service\<close>

lemma find_SomeD: "find P xs = Some x \<Longrightarrow> P x \<and> x \<in> set xs"
  by (induction xs) (auto split: if_splits)

lemma find_by_id_exists:
  "r \<in> set xs \<Longrightarrow>
   \<exists>r'. find (\<lambda>x. svc_ServiceId x = svc_ServiceId r) xs = Some r' \<and> svc_ServiceId r' = svc_ServiceId r"
  by (induction xs) auto

lemma find_by_id_distinct:
  "distinct (map svc_ServiceId xs) \<Longrightarrow> r \<in> set xs \<Longrightarrow>
   find (\<lambda>x. svc_ServiceId x = svc_ServiceId r) xs = Some r"
  by (induction xs) (auto simp: rev_image_eqI)

lemma find_append_new: "find P xs = None \<Longrightarrow> P y \<Longrightarrow> find P (xs @ [y]) = Some y"
  by (induction xs) (auto split: if_splits)

lemma same_identity_find:
  assumes "find (same_identity a) xs = Some r"
  shows "find (same_identity r) xs = Some r"
proof -
  from assms have "same_identity a r" by (simp add: find_SomeD)
  then have "same_identity r = same_identity a"
    by (auto simp: same_identity_def fun_eq_iff)
  with assms show ?thesis by simp
qed

lemma status_ok_code: "GetCode status_ok = ResponseSuccess"
  by (simp add: status_ok_def GetCode_def)

lemma status_failed_code: "GetCode (status_failed m) \<noteq> ResponseSuccess"
  by (simp add: status_failed_def GetCode_def ResponseSuccess_def)

lemma status_failed_code': "ResponseSuccess \<noteq> GetCode (status_failed m)"
  using status_failed_code[of m] by metis

lemmas status_codes = status_ok_code status_failed_code status_failed_code'

lemma registerService_found:
  assumes "core_Service s = Some svc" and "find (same_identity svc) (reg_services (world s)) = Some r"
  shows "\<exists>r'. find (\<lambda>x. svc_ServiceId x = svc_ServiceId r) (reg_services (world s)) = Some r'
          \<and> svc_ServiceId r' = svc_ServiceId r
          \<and> registerService (registry_api sgen igen) s
             = (Return None, s\<lparr>core_Service := Some r',
                 trace := trace s @ [EvExist, EvLog Warn ''service center service[%s] already registered'',
                                     EvGetOne (svc_ServiceId r)]\<rparr>)"
proof -
  from assms(2) have "r \<in> set (reg_services (world s))" by (simp add: find_SomeD)
  then obtain r' where r': "find (\<lambda>x. svc_ServiceId x = svc_ServiceId r) (reg_services (world s)) = Some r'"
      "svc_ServiceId r' = svc_ServiceId r"
    using find_by_id_exists by blast
  show ?thesis
    using assms r'
    by (simp add: registerService_def registry_api_def reg_Exist_def reg_GetOne_def emit_def Let_def
        status_codes)
qed

lemma registerService_created:
  assumes "core_Service s = Some svc" and "find (same_identity svc) (reg_services (world s)) = None"
    and "registerService (registry_api sgen igen) s = (Return None, s')"
  shows "sgen (world s) \<notin> set (map svc_ServiceId (reg_services (world s)))
     \<and> core_Service s' = Some (svc\<lparr>svc_ServiceId := sgen (world s)\<rparr>)
     \<and> reg_services (world s') = reg_services (world s) @ [svc\<lparr>svc_ServiceId := sgen (world s)\<rparr>]"
  using assms
  by (auto simp add: registerService_def registry_api_def reg_Exist_def reg_Create_def emit_def
      Let_def status_codes split: if_splits)

lemma registerService_needs_identity:
  assumes "core_Service s = None"
  shows "fst (registerService (registry_api sgen igen) s) \<noteq> Return None"
  using assms
  by (auto simp add: registerService_def registry_api_def reg_Exist_def reg_Create_def emit_def
      Let_def status_codes split: if_splits)

lemma registerService_registered:
  assumes d: "distinct (map svc_ServiceId (reg_services (world s)))"
    and ok: "registerService (registry_api sgen igen) s = (Return None, s')"
  shows "registered s'"
proof (cases "core_Service s")
  case None
  with registerService_needs_identity[OF None, of sgen igen] ok show ?thesis by simp
next
  case (Some svc)
  show ?thesis
  proof (cases "find (same_identity svc) (reg_services (world s))")
    case None
    from registerService_created[OF Some None ok]
    have c: "core_Service s' = Some (svc\<lparr>svc_ServiceId := sgen (world s)\<rparr>)"
      and w: "reg_services (world s') = reg_services (world s) @ [svc\<lparr>svc_ServiceId := sgen (world s)\<rparr>]"
      by simp_all
    have "same_identity (svc\<lparr>svc_ServiceId := sgen (world s)\<rparr>) = same_identity svc"
      by (simp add: same_identity_def fun_eq_iff)
    moreover have "same_identity svc (svc\<lparr>svc_ServiceId := sgen (world s)\<rparr>)"
      by (simp add: same_identity_def)
    ultimately show ?thesis
      using c w None by (simp add: registered_def find_append_new)
  next
    case (Some r)
    from registerService_found[OF \<open>core_Service s = Some svc\<close> Some, of sgen igen] ok
    obtain r' where r': "find (\<lambda>x. svc_ServiceId x = svc_ServiceId r) (reg_services (world s)) = Some r'"
      and s': "s' = s\<lparr>core_Service := Some r',
                 trace := trace s @ [EvExist, EvLog Warn ''service center service[%s] already registered'',
                                     EvGetOne (svc_ServiceId r)]\<rparr>"
      by auto
    from Some have "r \<in> set (reg_services (world s))" by (simp add: find_SomeD)
    with d r' have "r' = r" by (simp add: find_by_id_distinct)
    with s' same_identity_find[OF Some] show ?thesis
      by (simp add: registered_def)
  qed
qed

lemma registerInstance_keeps:
  "core_Service (snd (registerInstance (registry_api sgen igen) s)) = core_Service s
   \<and> reg_services (world (snd (registerInstance (registry_api sgen igen) s))) = reg_services (world s)"
  by (simp add: registerInstance_def registry_api_def reg_RegisterInstance_def emit_def Let_def
      split: option.splits)

lemma SelfRegister_success:
  assumes "SelfRegister api s = (Return None, s1)"
  shows "\<exists>sa sb. registerService api s = (Return None, sa) \<and> registerInstance api sa = (Return None, sb)
      \<and> s1 = emit EvGo sb"
  using assms
  by (auto simp add: SelfRegister_def selfRegister_def autoSelfHeartBeat_def
      split: prod.splits outcome.splits option.splits)

lemma SelfRegister_registered:
  assumes d: "distinct (map svc_ServiceId (reg_services (world s)))"
    and ok: "SelfRegister (registry_api sgen igen) s = (Return None, s1)"
  shows "registered s1"
proof -
  from SelfRegister_success[OF ok] obtain sa sb where
    a: "registerService (registry_api sgen igen) s = (Return None, sa)"
    and b: "registerInstance (registry_api sgen igen) sa = (Return None, sb)"
    and c: "s1 = emit EvGo sb" by blast
  from registerService_registered[OF d a] have "registered sa" .
  moreover from registerInstance_keeps[of sgen igen sa] b
  have "core_Service sb = core_Service sa" "reg_services (world sb) = reg_services (world sa)"
    by simp_all
  ultimately have "registered sb"
    by (simp add: registered_def)
  with c show ?thesis by (simp add: registered_def emit_def)
qed

lemma SelfRegister_adopts:
  assumes c: "core_Service s = Some svc"
    and f: "find (same_identity svc) (reg_services (world s)) = Some r"
  shows "service_id (snd (SelfRegister (registry_api sgen igen) s)) = Some (svc_ServiceId r)
     \<and> reg_services (world (snd (SelfRegister (registry_api sgen igen) s))) = reg_services (world s)
     \<and> EvCreate \<notin> set (emitted s (snd (SelfRegister (registry_api sgen igen) s)))"
proof -
  from registerService_found[OF c f, of sgen igen] obtain r' where
    r': "svc_ServiceId r' = svc_ServiceId r"
    and rs: "registerService (registry_api sgen igen) s
             = (Return None, s\<lparr>core_Service := Some r',
                 trace := trace s @ [EvExist, EvLog Warn ''service center service[%s] already registered'',
                                     EvGetOne (svc_ServiceId r)]\<rparr>)"
    by blast
  define sa where "sa = s\<lparr>core_Service := Some r',
                 trace := trace s @ [EvExist, EvLog Warn ''service center service[%s] already registered'',
                                     EvGetOne (svc_ServiceId r)]\<rparr>"
  define sb where "sb = snd (registerInstance (registry_api sgen igen) sa)"
  have k: "core_Service sb = core_Service sa" "reg_services (world sb) = reg_services (world sa)"
    using registerInstance_keeps[of sgen igen sa] by (simp_all add: sb_def)
  from registerInstance_trace[of "\<lambda>e. e \<noteq> EvCreate" sa "registry_api sgen igen"]
  obtain es where es: "trace sb = trace sa @ es" "list_all (\<lambda>e. e \<noteq> EvCreate) es"
    by (auto simp: grows_def sb_def)
  have nc: "EvCreate \<notin> set es" using es(2) by (auto simp: list_all_iff)
  have S: "snd (SelfRegister (registry_api sgen igen) s) = sb
      \<or> snd (SelfRegister (registry_api sgen igen) s) = emit EvGo sb"
    using rs by (auto simp add: SelfRegister_def selfRegister_def autoSelfHeartBeat_def sa_def sb_def
        split: prod.splits outcome.splits option.splits)
  have "service_id sb = Some (svc_ServiceId r)" "reg_services (world sb) = reg_services (world s)"
       "EvCreate \<notin> set (emitted s sb)"
    using k r' es nc by (simp_all add: service_id_def sa_def emitted_def)
  moreover have "service_id (emit EvGo sb) = Some (svc_ServiceId r)"
       "reg_services (world (emit EvGo sb)) = reg_services (world s)"
       "EvCreate \<notin> set (emitted s (emit EvGo sb))"
    using k r' es nc by (simp_all add: service_id_def sa_def emitted_def emit_def)
  ultimately show ?thesis using S by auto
qed

text \<open>
  That the serviceIds of the records are distinct is an invariant of the registry: no
  call of the client breaks it.
\<close>

lemma registry_api_keeps_distinct:
  assumes "distinct (map svc_ServiceId (reg_services R))"
  shows "distinct (map svc_ServiceId (reg_services (snd (reg_Exist R q))))"
    and "distinct (map svc_ServiceId (reg_services (snd (reg_GetOne R sid))))"
    and "distinct (map svc_ServiceId (reg_services (snd (reg_Create sgen R q))))"
    and "distinct (map svc_ServiceId (reg_services (snd (reg_RegisterInstance igen R inst))))"
    and "distinct (map svc_ServiceId (reg_services (snd (reg_Heartbeat R inst))))"
    and "distinct (map svc_ServiceId (reg_services (snd (reg_UnregisterInstance R inst))))"
  using assms
  by (auto simp add: reg_Exist_def reg_GetOne_def reg_Create_def reg_RegisterInstance_def
      reg_Heartbeat_def reg_UnregisterInstance_def split: option.splits)

text \<open>
  C3, over the registry modelled from the spec, whose service records have distinct ids.
  If \<open>SelfRegister\<close> returns no error and is called again and returns no error, the
  node holds a serviceId after the first call and the same serviceId after the second;
  the second call creates nothing and leaves the service records as they were. And if
  the registry holds a record of the node's identity, under the id \<open>S1\<close> say, then
  after \<open>SelfRegister\<close> the node's serviceId is that id, and no create-service request
  was sent.
\<close>

theorem SelfRegister_idempotent:
  assumes d: "distinct (map svc_ServiceId (reg_services (world s)))"
  shows "(SelfRegister (registry_api sgen igen) s = (Return None, s1) \<longrightarrow>
          SelfRegister (registry_api sgen igen) s1 = (Return None, s2) \<longrightarrow>
            service_id s1 \<noteq> None \<and> service_id s2 = service_id s1
            \<and> reg_services (world s2) = reg_services (world s1)
            \<and> EvCreate \<notin> set (emitted s1 s2))
       \<and> (core_Service s = Some svc \<longrightarrow>
          find (same_identity svc) (reg_services (world s)) = Some r \<longrightarrow>
            service_id (snd (SelfRegister (registry_api sgen igen) s)) = Some (svc_ServiceId r)
            \<and> EvCreate \<notin> set (emitted s (snd (SelfRegister (registry_api sgen igen) s))))"
proof (intro conjI impI)
  assume ok1: "SelfRegister (registry_api sgen igen) s = (Return None, s1)"
    and ok2: "SelfRegister (registry_api sgen igen) s1 = (Return None, s2)"
  from SelfRegister_registered[OF d ok1] have "registered s1" .
  then obtain c c' where c: "core_Service s1 = Some c"
    and f: "find (same_identity c) (reg_services (world s1)) = Some c'"
    and i: "svc_ServiceId c' = svc_ServiceId c"
    by (auto simp: registered_def)
  from SelfRegister_adopts[OF c f, of sgen igen] ok2 i c
  show "service_id s1 \<noteq> None" "service_id s2 = service_id s1"
    "reg_services (world s2) = reg_services (world s1)" "EvCreate \<notin> set (emitted s1 s2)"
    by (simp_all add: service_id_def)
next
  assume c: "core_Service s = Some svc" and f: "find (same_identity svc) (reg_services (world s)) = Some r"
  from SelfRegister_adopts[OF c f, of sgen igen]
  show "service_id (snd (SelfRegister (registry_api sgen igen) s)) = Some (svc_ServiceId r)"
    "EvCreate \<notin> set (emitted s (snd (SelfRegister (registry_api sgen igen) s)))"
    by simp_all
qed

theorem SelfRegister_idempotent_witness:
  "SelfRegister test_api (node0 registry_empty) = (Return None, node1)
   \<and> fst (SelfRegister test_api node1) = Return None
   \<and> service_id node1 = Some ''S''
   \<and> service_id (snd (SelfRegister test_api node1)) = service_id node1
   \<and> EvCreate \<notin> set (emitted node1 (snd (SelfRegister test_api node1)))
   \<and> find (same_identity (sc_record [])) (reg_services registry_S1) = Some (sc_record ''S1'')
   \<and> service_id (snd (SelfRegister test_api (node0 registry_S1))) = Some ''S1''
   \<and> EvCreate \<notin> set (emitted (node0 registry_S1) (snd (SelfRegister test_api (node0 registry_S1))))"
proof -
  have r1: "SelfRegister test_api (node0 registry_empty) = (Return None, node1)"
    by (simp add: eval_defs node1_def)
  have r2f: "fst (SelfRegister test_api node1) = Return None"
    by (simp add: eval_defs node1_def)
  then have r2: "SelfRegister test_api node1 = (Return None, snd (SelfRegister test_api node1))"
    by (metis prod.collapse)
  have d0: "distinct (map svc_ServiceId (reg_services (world (node0 registry_empty))))"
    by (simp add: node0_def registry_empty_def)
  have d1: "distinct (map svc_ServiceId (reg_services (world (node0 registry_S1))))"
    by (simp add: node0_def registry_S1_def)
  have c: "core_Service (node0 registry_S1) = Some (sc_record [])"
    by (simp add: node0_def sc_record_def)
  have f: "find (same_identity (sc_record [])) (reg_services (world (node0 registry_S1))) = Some (sc_record ''S1'')"
    by (simp add: node0_def registry_S1_def sc_record_def same_identity_def)
  have i: "svc_ServiceId (sc_record ''S1'') = ''S1''" "service_id node1 = Some ''S''"
    "world (node0 registry_S1) = registry_S1"
    by (simp_all add: sc_record_def node1_def service_id_def node0_def)
  let ?sgen = "\<lambda>R. ''S'' @ replicate (length (reg_services R)) CHR ''+''"
  let ?igen = "\<lambda>R. ''I'' @ replicate (length (reg_instances R)) CHR ''+''"
  have t: "test_api = registry_api ?sgen ?igen"
    by (simp add: test_api_def)
  let ?api = "registry_api ?sgen ?igen"
  have a: "service_id node1 \<noteq> None \<and> service_id (snd (SelfRegister ?api node1)) = service_id node1
      \<and> reg_services (world (snd (SelfRegister ?api node1))) = reg_services (world node1)
      \<and> EvCreate \<notin> set (emitted node1 (snd (SelfRegister ?api node1)))"
    using SelfRegister_idempotent [where s = "node0 registry_empty" and sgen = ?sgen and igen = ?igen
        and ?s1.0 = node1 and ?s2.0 = "snd (SelfRegister ?api node1)",
        OF d0, THEN conjunct1, THEN mp, OF r1 [unfolded t], THEN mp, OF r2 [unfolded t]] .
  have b: "service_id (snd (SelfRegister ?api (node0 registry_S1))) = Some (svc_ServiceId (sc_record ''S1''))
      \<and> EvCreate \<notin> set (emitted (node0 registry_S1) (snd (SelfRegister ?api (node0 registry_S1))))"
    using SelfRegister_idempotent [where s = "node0 registry_S1" and sgen = ?sgen and igen = ?igen
        and svc = "sc_record []" and r = "sc_record ''S1''",
        OF d1, THEN conjunct2, THEN mp, OF c, THEN mp, OF f] .
  show ?thesis
    using r1 r2f a [folded t] b [folded t] f i by simp
qed

text \<open>
  What the lookup branch does handle: a response of the lookup that carries a
  non-success status. The error that says the service does not exist is returned, and
  the service identity is left as it was.
\<close>

lemma registerService_lookup_status_failure:
  assumes "ServiceAPI_Exist api (world s) (core_Service s) = ((Some rE, None), w1)"
    and "GetCode (exist_Response rE) = ResponseSuccess"
    and "ServiceAPI_GetOne api w1 (exist_ServiceId rE) = ((Some rG, errG), w2)"
    and "GetCode (get_Response rG) \<noteq> ResponseSuccess"
  shows "fst (registerService api s) = Return (Some ErrServiceNotExists)
     \<and> core_Service (snd (registerService api s)) = core_Service s"
  using assms
  by (simp add: registerService_def emit_def Let_def)

text \<open>
  C2. The existence query reports a record, under \<open>S1\<close>, and the lookup by id fails
  with an error of the call. With no response beside the error, \<open>registerService\<close>
  panics; with an empty response beside the error, it returns no error and replaces the
  service identity by what the response holds, which is nothing. In neither case does
  it return the error that says the service does not exist.
\<close>

theorem registerService_lookup_error_not_reported:
  "fst (ServiceAPI_GetOne client_lookup_nil registry_S1 ''S1'') = (None, Some (External ''context deadline exceeded''))
   \<and> fst (registerService client_lookup_nil (node0 registry_S1)) = Panic
   \<and> snd (fst (ServiceAPI_GetOne client_lookup_empty registry_S1 ''S1'')) = Some (External ''context deadline exceeded'')
   \<and> fst (registerService client_lookup_empty (node0 registry_S1)) = Return None
   \<and> core_Service (snd (registerService client_lookup_empty (node0 registry_S1))) = None"
  by (simp add: eval_defs)

text \<open>
  C10. The existence query reports a record and the lookup by id returns a nil response
  with a transport error: \<open>registerService\<close> reads the status of the response without
  looking at the error, and the call ends in a panic, after the existence query and the
  lookup, and \<open>SelfRegister\<close> with it.
\<close>

theorem registerService_nil_lookup_panics:
  "registerService client_lookup_nil (node0 registry_S1)
     = (Panic, (node0 registry_S1)\<lparr>trace :=
          [EvExist, EvLog Warn ''service center service[%s] already registered'', EvGetOne ''S1'']\<rparr>)
   \<and> fst (SelfRegister client_lookup_nil (node0 registry_S1)) = Panic"
  by (simp add: eval_defs)

end
